theory Spec2Isabelle
  imports Complex_Main
begin

section \<open>Python values\<close>

text \<open>
  The program is the Python module \<^verbatim>\<open>nlp_agent.py\<close>. A Python \<^verbatim>\<open>str\<close> is
  modelled as a \<open>string\<close> whose characters are code points below 256 (one \<open>char\<close>
  is one code point, read as Latin-1); the character classes below are Python's
  \<^verbatim>\<open>str\<close> methods and the \<^verbatim>\<open>re\<close> module's classes restricted to that range.
\<close>

definition code_point :: "char \<Rightarrow> nat" where
  "code_point c = of_char c"

text \<open>\<^verbatim>\<open>\d\<close> of \<^verbatim>\<open>re\<close> and \<^verbatim>\<open>str.isdecimal\<close>: the decimal digits.\<close>

definition isdecimal :: "char \<Rightarrow> bool" where
  "isdecimal c = (48 \<le> code_point c \<and> code_point c \<le> 57)"

text \<open>\<^verbatim>\<open>str.isdigit\<close>: the decimal digits and the superscripts two, three, one.\<close>

definition isdigit :: "char \<Rightarrow> bool" where
  "isdigit c = (isdecimal c \<or> code_point c = 178 \<or> code_point c = 179 \<or> code_point c = 185)"

text \<open>\<^verbatim>\<open>str.isnumeric\<close>: the digits and the vulgar fractions.\<close>

definition isnumeric :: "char \<Rightarrow> bool" where
  "isnumeric c = (isdigit c \<or> (188 \<le> code_point c \<and> code_point c \<le> 190))"

text \<open>The class \<^verbatim>\<open>[a-zA-Z]\<close>.\<close>

definition ascii_letter :: "char \<Rightarrow> bool" where
  "ascii_letter c = ((65 \<le> code_point c \<and> code_point c \<le> 90) \<or>
                     (97 \<le> code_point c \<and> code_point c \<le> 122))"

text \<open>\<^verbatim>\<open>str.isalpha\<close>: the letters of ASCII and of the Latin-1 supplement.\<close>

definition isalpha :: "char \<Rightarrow> bool" where
  "isalpha c = (ascii_letter c \<or> code_point c = 170 \<or> code_point c = 181 \<or> code_point c = 186 \<or>
                (192 \<le> code_point c \<and> code_point c \<le> 214) \<or>
                (216 \<le> code_point c \<and> code_point c \<le> 246) \<or>
                (248 \<le> code_point c \<and> code_point c \<le> 255))"

definition isalnum :: "char \<Rightarrow> bool" where
  "isalnum c = (isalpha c \<or> isdecimal c \<or> isdigit c \<or> isnumeric c)"

text \<open>\<^verbatim>\<open>str.isspace\<close>, the separators of \<^verbatim>\<open>str.split()\<close>.\<close>

definition isspace :: "char \<Rightarrow> bool" where
  "isspace c = ((9 \<le> code_point c \<and> code_point c \<le> 13) \<or>
                (28 \<le> code_point c \<and> code_point c \<le> 32) \<or>
                code_point c = 133 \<or> code_point c = 160)"

text \<open>
  \<^verbatim>\<open>str.split()\<close> without arguments: the maximal runs of characters that are not
  whitespace, in order. \<open>split_words w s\<close> carries the word \<open>w\<close> being read.
\<close>

fun split_words :: "string \<Rightarrow> string \<Rightarrow> string list" where
  "split_words w [] = (if w = [] then [] else [w])"
| "split_words w (c # s) =
     (if isspace c then (if w = [] then split_words [] s else w # split_words [] s)
      else split_words (w @ [c]) s)"

definition split :: "string \<Rightarrow> string list" where
  "split s = split_words [] s"

datatype error = IndexError | KeyError | TypeError | ValueError | AttributeError

subsection \<open>Floats\<close>

text \<open>
  The only floats of the program are the results of \<^verbatim>\<open>float(number)\<close> on a token
  matched by the regular expression of \<open>amount_breakdown\<close>: an optional sign, digits,
  and an optional fraction. \<open>PyFloat neg m k\<close> stands for the float nearest to the
  decimal \<open>m / 10 ^ k\<close>, negated when \<open>neg\<close>, with \<open>k\<close> as small as possible.
  The representation is exact for Python's \<^verbatim>\<open>==\<close> and \<^verbatim>\<open>repr\<close> when the token
  has at most 15 significant digits and its value is zero or of magnitude in
  \<open>[1e-4, 1e16)\<close>: these decimals round to distinct doubles and \<^verbatim>\<open>repr\<close> prints
  them back in positional notation. Longer tokens are outside what this model renders
  faithfully. HOL equality separates \<open>-0.0\<close> from \<open>0.0\<close>, which \<^verbatim>\<open>==\<close> does not.
\<close>

datatype pyfloat = PyFloat (negative: bool) (mantissa: nat) (scale: nat)

definition float_value :: "pyfloat \<Rightarrow> rat" where
  "float_value x = (if negative x then - 1 else 1) * of_nat (mantissa x) / 10 ^ scale x"

definition digit_value :: "char \<Rightarrow> nat" where
  "digit_value c = code_point c - 48"

definition digits_value :: "string \<Rightarrow> nat" where
  "digits_value ds = foldl (\<lambda>n c. 10 * n + digit_value c) 0 ds"

text \<open>\<^verbatim>\<open>float(number)\<close> for a token of the shape the regular expression matches.\<close>

definition float :: "string \<Rightarrow> pyfloat" where
  "float number =
     (let neg = (number \<noteq> [] \<and> hd number = CHR ''-'');
          body = (if number \<noteq> [] \<and> (hd number = CHR ''-'' \<or> hd number = CHR ''+'')
                  then tl number else number);
          whole = takeWhile (\<lambda>c. c \<noteq> CHR ''.'') body;
          fraction = drop 1 (dropWhile (\<lambda>c. c \<noteq> CHR ''.'') body);
          kept = rev (dropWhile (\<lambda>c. c = CHR ''0'') (rev fraction))
      in PyFloat neg (digits_value (whole @ kept)) (length kept))"

definition digit_char :: "nat \<Rightarrow> char" where
  "digit_char d = char_of (48 + d)"

fun digits_of :: "nat \<Rightarrow> string" where
  "digits_of n = (if n < 10 then [digit_char n] else digits_of (n div 10) @ [digit_char (n mod 10)])"

declare digits_of.simps [simp del]

text \<open>\<^verbatim>\<open>repr\<close> of a float, which \<^verbatim>\<open>str\<close> and f-strings use.\<close>

definition float_repr :: "pyfloat \<Rightarrow> string" where
  "float_repr x =
     (let whole = mantissa x div 10 ^ scale x;
          part = digits_of (mantissa x mod 10 ^ scale x)
      in (if negative x then ''-'' else '''') @ digits_of whole @ ''.'' @
         (if scale x = 0 then ''0'' else replicate (scale x - length part) CHR ''0'' @ part))"

subsection \<open>The regular expression of \<open>amount_breakdown\<close>\<close>

text \<open>
  A backtracking matcher for the fragment of \<^verbatim>\<open>re\<close> that the pattern
  \<^verbatim>\<open>(?<![a-zA-Z:])[-+]?\d*\.?\d+\<close> uses. \<open>matches r s\<close> lists the remainders of
  \<open>s\<close> after each way to match \<open>r\<close> at its start, in the order the greedy
  backtracking engine tries them: the head of the list is the match it reports.
\<close>

datatype regex =
    Class "char \<Rightarrow> bool"
  | Opt "char \<Rightarrow> bool"
  | Star "char \<Rightarrow> bool"
  | Plus "char \<Rightarrow> bool"
  | Seq regex regex

fun star_matches :: "(char \<Rightarrow> bool) \<Rightarrow> string \<Rightarrow> string list" where
  "star_matches p [] = [[]]"
| "star_matches p (c # s) = (if p c then star_matches p s @ [c # s] else [c # s])"

fun matches :: "regex \<Rightarrow> string \<Rightarrow> string list" where
  "matches (Class p) s = (case s of [] \<Rightarrow> [] | c # r \<Rightarrow> if p c then [r] else [])"
| "matches (Opt p) s = (case s of [] \<Rightarrow> [s] | c # r \<Rightarrow> if p c then [r, s] else [s])"
| "matches (Star p) s = star_matches p s"
| "matches (Plus p) s = (case s of [] \<Rightarrow> [] | c # r \<Rightarrow> if p c then star_matches p r else [])"
| "matches (Seq a b) s = concat (map (matches b) (matches a s))"

definition number_pattern :: regex where
  "number_pattern =
     Seq (Opt (\<lambda>c. c = CHR ''-'' \<or> c = CHR ''+''))
       (Seq (Star isdecimal) (Seq (Opt (\<lambda>c. c = CHR ''.'')) (Plus isdecimal)))"

text \<open>The negative lookbehind \<^verbatim>\<open>(?<![a-zA-Z:])\<close>, given the character before the position.\<close>

definition lookbehind :: "char option \<Rightarrow> bool" where
  "lookbehind prev = (case prev of None \<Rightarrow> True | Some c \<Rightarrow> \<not> (ascii_letter c \<or> c = CHR '':''))"

definition match_here :: "char option \<Rightarrow> string \<Rightarrow> string option" where
  "match_here prev s =
     (if lookbehind prev then
        (case matches number_pattern s of
           [] \<Rightarrow> None
         | r # _ \<Rightarrow> Some (take (length s - length r) s))
      else None)"

text \<open>
  \<^verbatim>\<open>re.findall(pattern, amount)[0]\<close>: the leftmost match, \<open>None\<close> where the list
  of matches is empty and the index raises.
\<close>

fun first_match :: "char option \<Rightarrow> string \<Rightarrow> string option" where
  "first_match prev [] = match_here prev []"
| "first_match prev (c # s) =
     (case match_here prev (c # s) of
        Some number \<Rightarrow> Some number
      | None \<Rightarrow> first_match (Some c) s)"

subsection \<open>Values and dictionaries\<close>

text \<open>
  The values the program stores in \<^verbatim>\<open>parsed_items\<close>: \<^verbatim>\<open>None\<close>, booleans,
  strings, floats, and the pair \<^verbatim>\<open>(float(number), unit)\<close> of \<open>amount_breakdown\<close>.
\<close>

datatype pyval = VNone | VBool bool | VStr string | VFloat pyfloat | VTuple pyfloat string

definition hex_char :: "nat \<Rightarrow> char" where
  "hex_char d = (if d < 10 then char_of (48 + d) else char_of (87 + d))"

definition isprintable :: "char \<Rightarrow> bool" where
  "isprintable c = ((32 \<le> code_point c \<and> code_point c \<le> 126) \<or>
                    (161 \<le> code_point c \<and> code_point c \<le> 172) \<or>
                    (174 \<le> code_point c \<and> code_point c \<le> 255))"

definition escape_char :: "char \<Rightarrow> char \<Rightarrow> string" where
  "escape_char quote c =
     (if c = quote \<or> c = CHR 0x5C then [CHR 0x5C, c]
      else if c = CHR 0x09 then [CHR 0x5C, CHR ''t'']
      else if c = CHR 0x0A then [CHR 0x5C, CHR ''n'']
      else if c = CHR 0x0D then [CHR 0x5C, CHR ''r'']
      else if isprintable c then [c]
      else [CHR 0x5C, CHR ''x'', hex_char (code_point c div 16), hex_char (code_point c mod 16)])"

text \<open>\<^verbatim>\<open>repr\<close> of a string: in single quotes unless it holds one and no double quote.\<close>

definition str_repr :: "string \<Rightarrow> string" where
  "str_repr s =
     (let quote = (if CHR 0x27 \<in> set s \<and> CHR 0x22 \<notin> set s then CHR 0x22 else CHR 0x27)
      in [quote] @ concat (map (escape_char quote) s) @ [quote])"

text \<open>\<^verbatim>\<open>str(value)\<close>, the text an f-string puts in place of \<^verbatim>\<open>{value}\<close>.\<close>

fun py_str :: "pyval \<Rightarrow> string" where
  "py_str VNone = ''None''"
| "py_str (VBool b) = (if b then ''True'' else ''False'')"
| "py_str (VStr s) = s"
| "py_str (VFloat x) = float_repr x"
| "py_str (VTuple x u) = ''('' @ float_repr x @ '', '' @ str_repr u @ '')''"

text \<open>
  A \<^verbatim>\<open>dict\<close> with string keys, as the list of its items in insertion order; the
  keys of a dictionary are distinct.
\<close>

type_synonym pydict = "(string \<times> pyval) list"

definition keys :: "pydict \<Rightarrow> string list" where
  "keys d = map fst d"

text \<open>\<^verbatim>\<open>key in d\<close>.\<close>

definition contains :: "pydict \<Rightarrow> string \<Rightarrow> bool" where
  "contains d k = (k \<in> set (keys d))"

text \<open>\<^verbatim>\<open>d[key]\<close>, which raises \<^verbatim>\<open>KeyError\<close> for a missing key.\<close>

definition getitem :: "pydict \<Rightarrow> string \<Rightarrow> error + pyval" where
  "getitem d k = (case map_of d k of None \<Rightarrow> Inl KeyError | Some v \<Rightarrow> Inr v)"

text \<open>
  \<^verbatim>\<open>d[key] = value\<close>: the value of an existing key is replaced in place, a new key
  is added at the end.
\<close>

fun setitem :: "pydict \<Rightarrow> string \<Rightarrow> pyval \<Rightarrow> pydict" where
  "setitem [] k v = [(k, v)]"
| "setitem ((k', v') # d) k v = (if k' = k then (k, v) # d else (k', v') # setitem d k v)"

text \<open>\<^verbatim>\<open>{**a, **b}\<close>: the items of \<open>b\<close> are set in \<open>a\<close>, one after the other.\<close>

definition merge :: "pydict \<Rightarrow> pydict \<Rightarrow> pydict" where
  "merge a b = foldl (\<lambda>d (k, v). setitem d k v) a b"

section \<open>NLPField\<close>

text \<open>
  \<^verbatim>\<open>amount_breakdown\<close> (lines 78-86): the first number of the text and the
  unit, which is every alphanumeric character that is not a digit, or meters.
\<close>

definition amount_breakdown :: "string \<Rightarrow> pyval" where
  "amount_breakdown amount =
     (case first_match None amount of
        None \<Rightarrow> VNone
      | Some number \<Rightarrow>
          (let unit = filter (\<lambda>letter. isalnum letter \<and> \<not> isdigit letter) amount;
               unit = (if unit = '''' then ''m'' else unit)
           in VTuple (float number) unit))"

subsection \<open>NLPModels and NLPModelsHelper\<close>

text \<open>
  The two pipelines of \<^verbatim>\<open>NLPModels\<close> (lines 8-14) are outside the repository; they
  are the parameters of the model. The classifier takes the text and the candidate
  labels and returns the columns \<^verbatim>\<open>labels\<close> and \<^verbatim>\<open>scores\<close> of its result,
  row by row; the question answerer takes a question and a context and returns the
  \<^verbatim>\<open>answer\<close> of its result. A score is the exact value of the float.
\<close>

record nlp_models =
  models_zero_shot :: "string \<Rightarrow> string list \<Rightarrow> (string \<times> rat) list"
  models_question_answerer :: "string \<Rightarrow> string \<Rightarrow> string"

record nlp_models_helper =
  zero_shot_threshold :: rat
  nlp_models :: nlp_models

text \<open>
  \<^verbatim>\<open>zero_shot\<close> (lines 24-26): \<^verbatim>\<open>['scores'][0]\<close> raises on a result
  without rows.
\<close>

definition zero_shot :: "'a nlp_models_helper_scheme \<Rightarrow> string \<Rightarrow> string \<Rightarrow> error + bool" where
  "zero_shot self prompt candidate_label =
     (case map snd (models_zero_shot (nlp_models self) prompt [candidate_label]) of
        [] \<Rightarrow> Inl IndexError
      | score # _ \<Rightarrow> Inr (score > zero_shot_threshold self))"

text \<open>\<^verbatim>\<open>Series.idxmax\<close>: the position of the first maximum of a column with rows.\<close>

definition idxmax :: "rat list \<Rightarrow> nat" where
  "idxmax scores = length (takeWhile (\<lambda>score. score \<noteq> foldl max (hd scores) (tl scores)) scores)"

text \<open>
  \<^verbatim>\<open>zero_shot_multiple\<close> (lines 28-30): the label in the row of the first
  maximal score; \<^verbatim>\<open>idxmax\<close> raises on a frame without rows.
\<close>

definition zero_shot_multiple ::
  "'a nlp_models_helper_scheme \<Rightarrow> string \<Rightarrow> string list \<Rightarrow> error + string" where
  "zero_shot_multiple self prompt candidate_labels =
     (let df = models_zero_shot (nlp_models self) prompt candidate_labels
      in if df = [] then Inl ValueError
         else Inr (fst (df ! idxmax (map snd df))))"

definition question_answerer :: "'a nlp_models_helper_scheme \<Rightarrow> string \<Rightarrow> string \<Rightarrow> string" where
  "question_answerer self question context_text =
     models_question_answerer (nlp_models self) question context_text"

subsection \<open>The methods of NLPField\<close>

record nlp_field = nlp_models_helper +
  name :: string
  other_names :: "string list"

text \<open>The loop of \<open>found_inside\<close> over \<^verbatim>\<open>self.other_names\<close> (lines 49-52).\<close>

fun found_inside_other :: "nlp_field \<Rightarrow> string \<Rightarrow> string list \<Rightarrow> error + bool" where
  "found_inside_other self prompt [] = Inr False"
| "found_inside_other self prompt (n # names) =
     (case zero_shot self prompt n of
        Inl e \<Rightarrow> Inl e
      | Inr found \<Rightarrow> if found then Inr True else found_inside_other self prompt names)"

definition found_inside :: "nlp_field \<Rightarrow> string \<Rightarrow> error + bool" where
  "found_inside self prompt =
     (case zero_shot self prompt (name self) of
        Inl e \<Rightarrow> Inl e
      | Inr found \<Rightarrow> if found then Inr True else found_inside_other self prompt (other_names self))"

text \<open>
  The methods below read \<^verbatim>\<open>self.elements\<close>, \<^verbatim>\<open>self.directions\<close>,
  \<^verbatim>\<open>self.summary\<close> and \<^verbatim>\<open>self.parsed_items_to_discard\<close>, which only
  \<^verbatim>\<open>NLPStructuralField\<close> has: they are modelled for \<open>self\<close> an instance of that
  class, whose \<^verbatim>\<open>__post_init__\<close> (lines 108-111) sets the two lists.
\<close>

definition elements :: "string list" where
  "elements = [''wall'', ''slab'', ''beam'', ''column'']"

definition directions :: "string list" where
  "directions = [''up'', ''down'', ''front'', ''back'', ''left'', ''right'']"

definition which_element :: "nlp_field \<Rightarrow> string \<Rightarrow> error + pyval" where
  "which_element self prompt =
     (case zero_shot_multiple self prompt elements of
        Inl e \<Rightarrow> Inl e
      | Inr candidate \<Rightarrow>
          (case zero_shot self prompt candidate of
             Inl e \<Rightarrow> Inl e
           | Inr relevant \<Rightarrow> Inr (if relevant then VStr candidate else VNone)))"

text \<open>\<open>element_name\<close> (lines 58-61): \<^verbatim>\<open>name.split()[0]\<close> raises when there is no word.\<close>

definition element_name :: "nlp_field \<Rightarrow> string \<Rightarrow> string \<Rightarrow> error + pyval" where
  "element_name self prompt element =
     (let question = ''Which is the name of the '' @ element @ ''?'';
          answer = question_answerer self question prompt
      in if answer = '''' then Inr VNone
         else (case split answer of
                 [] \<Rightarrow> Inl IndexError
               | word # _ \<Rightarrow> Inr (VStr word)))"

definition action :: "nlp_field \<Rightarrow> string \<Rightarrow> string \<Rightarrow> string \<Rightarrow> error + pyval" where
  "action self prompt element element_name' =
     (let question = ''What should we do with the '' @ element @ '' '' @ element_name' @ ''?''
      in Inr (VStr (question_answerer self question prompt)))"

definition overall_direction :: "nlp_field \<Rightarrow> string \<Rightarrow> error + pyval" where
  "overall_direction self prompt =
     (let question = ''To where?''
      in Inr (VStr (question_answerer self question prompt)))"

definition direction :: "nlp_field \<Rightarrow> string \<Rightarrow> error + pyval" where
  "direction self prompt =
     (case zero_shot_multiple self prompt directions of
        Inl e \<Rightarrow> Inl e
      | Inr label \<Rightarrow> Inr (VStr label))"

definition amount :: "nlp_field \<Rightarrow> string \<Rightarrow> error + pyval" where
  "amount self prompt =
     (let question = ''By how much?''
      in Inr (VStr (question_answerer self question prompt)))"

text \<open>
  \<open>summary\<close> of \<^verbatim>\<open>NLPStructuralField\<close> (lines 152-167), placed here because
  \<open>on_fail\<close> calls it. The last phrase reads \<^verbatim>\<open>parsed_items["unit"]\<close> after
  checking for \<^verbatim>\<open>'number'\<close> only.
\<close>

definition summary :: "pydict \<Rightarrow> error + string" where
  "summary parsed_items =
     (let txt = '''' in
      if \<not> contains parsed_items ''element'' then Inr txt else
      (case getitem parsed_items ''element'' of Inl e \<Rightarrow> Inl e | Inr element \<Rightarrow>
      (let txt = txt @ ''a '' @ py_str element in
      if \<not> contains parsed_items ''element_name'' then Inr txt else
      (case getitem parsed_items ''element_name'' of Inl e \<Rightarrow> Inl e | Inr element_name' \<Rightarrow>
      (let txt = txt @ '' named '' @ py_str element_name' in
      if \<not> contains parsed_items ''direction'' then Inr txt else
      (case getitem parsed_items ''direction'' of Inl e \<Rightarrow> Inl e | Inr direction' \<Rightarrow>
      (let txt = txt @ '' is requested to be moved '' @ py_str direction' in
      if \<not> contains parsed_items ''number'' then Inr txt else
      (case getitem parsed_items ''number'' of Inl e \<Rightarrow> Inl e | Inr number \<Rightarrow>
      (case getitem parsed_items ''unit'' of Inl e \<Rightarrow> Inl e | Inr unit \<Rightarrow>
      (let txt = txt @ '' by '' @ py_str number @ '' '' @ py_str unit in
      Inr txt))))))))))"

text \<open>\<open>on_fail\<close> (lines 88-95); \<open>parsed_items\<close> is \<open>None\<close> by default.\<close>

definition on_fail :: "nlp_field \<Rightarrow> string \<Rightarrow> pydict option \<Rightarrow> error + string" where
  "on_fail self item parsed_items =
     (case (case parsed_items of
              None \<Rightarrow> Inr ''Sorry, ''
            | Some items \<Rightarrow>
                (case summary items of
                   Inl e \<Rightarrow> Inl e
                 | Inr understood \<Rightarrow> Inr (''Hey! I understood '' @ understood @ ''. However, ''))) of
        Inl e \<Rightarrow> Inl e
      | Inr txt \<Rightarrow>
          Inr (txt @ ''I could not understand which '' @ item @ '' you are talking about. '' @
               ''Would you mind to rephrase it in a clear way for me and try again? Thanks in advance!''))"

text \<open>\<^verbatim>\<open>parsed_items_to_discard\<close> of \<^verbatim>\<open>NLPStructuralField\<close> (lines 148-150).\<close>

definition parsed_items_to_discard :: "string list" where
  "parsed_items_to_discard = [''prompt'', ''action'', ''overall_direction'', ''amount'', ''number_unit'']"

definition discard_items :: "pydict \<Rightarrow> pydict" where
  "discard_items parsed_items =
     filter (\<lambda>(key, v). key \<notin> set parsed_items_to_discard) parsed_items"

text \<open>
  \<open>parse_amount\<close> (lines 100-103): the value of \<^verbatim>\<open>'number_unit'\<close> is unpacked
  into two targets. A pair gives its components, a string of two characters gives the
  two characters, anything else raises.
\<close>

definition parse_amount :: "pydict \<Rightarrow> error + pydict" where
  "parse_amount parsed_items =
     (case getitem parsed_items ''number_unit'' of
        Inl e \<Rightarrow> Inl e
      | Inr (VTuple number unit) \<Rightarrow>
          Inr (setitem (setitem parsed_items ''number'' (VFloat number)) ''unit'' (VStr unit))
      | Inr (VStr s) \<Rightarrow>
          (case s of
             [a, b] \<Rightarrow> Inr (setitem (setitem parsed_items ''number'' (VStr [a])) ''unit'' (VStr [b]))
           | _ \<Rightarrow> Inl ValueError)
      | Inr _ \<Rightarrow> Inl TypeError)"

section \<open>NLPStructuralField\<close>

text \<open>
  A step of \<^verbatim>\<open>nlp_recipe\<close> (lines 113-146): the bound method, the names of its
  arguments (one name or a list of names) and the optional readable name. A key that
  the step's dictionary does not have is \<open>None\<close>.
\<close>

datatype argspec = ArgName string | ArgList "string list"

record step_data =
  func :: "pyval list \<Rightarrow> error + pyval"
  args :: "argspec option"
  readable_value_name :: "string option"

text \<open>
  \<^verbatim>\<open>func(*args)\<close> for a method of one, two or three parameters. The methods are
  written for strings; another number of arguments, or an argument that is not a
  string, raises.
\<close>

fun call1 :: "(string \<Rightarrow> error + pyval) \<Rightarrow> pyval list \<Rightarrow> error + pyval" where
  "call1 f [VStr a] = f a"
| "call1 f _ = Inl TypeError"

fun call2 :: "(string \<Rightarrow> string \<Rightarrow> error + pyval) \<Rightarrow> pyval list \<Rightarrow> error + pyval" where
  "call2 f [VStr a, VStr b] = f a b"
| "call2 f _ = Inl TypeError"

fun call3 :: "(string \<Rightarrow> string \<Rightarrow> string \<Rightarrow> error + pyval) \<Rightarrow> pyval list \<Rightarrow> error + pyval" where
  "call3 f [VStr a, VStr b, VStr c] = f a b c"
| "call3 f _ = Inl TypeError"

definition nlp_recipe :: "nlp_field \<Rightarrow> (string \<times> step_data) list" where
  "nlp_recipe self =
     [(''element'',
         \<lparr>func = call1 (which_element self), args = Some (ArgName ''prompt''),
          readable_value_name = None\<rparr>),
      (''element_name'',
         \<lparr>func = call2 (element_name self), args = Some (ArgList [''prompt'', ''element'']),
          readable_value_name = None\<rparr>),
      (''action'',
         \<lparr>func = call3 (action self),
          args = Some (ArgList [''prompt'', ''element'', ''element_name'']),
          readable_value_name = None\<rparr>),
      (''overall_direction'',
         \<lparr>func = call1 (overall_direction self), args = Some (ArgList [''prompt'']),
          readable_value_name = Some ''direction''\<rparr>),
      (''direction'',
         \<lparr>func = call1 (direction self), args = Some (ArgName ''overall_direction''),
          readable_value_name = None\<rparr>),
      (''amount'',
         \<lparr>func = call1 (amount self), args = Some (ArgName ''action''),
          readable_value_name = None\<rparr>),
      (''number_unit'',
         \<lparr>func = call1 (\<lambda>amount'. Inr (amount_breakdown amount')), args = Some (ArgName ''amount''),
          readable_value_name = Some ''amount''\<rparr>)]"

definition on_success :: "nlp_field \<Rightarrow> pydict \<Rightarrow> error + string" where
  "on_success self parsed_items =
     (case summary parsed_items of
        Inl e \<Rightarrow> Inl e
      | Inr understood \<Rightarrow> Inr (''Hey! Perfect, I understood that '' @ understood @ ''. Doing my job now!''))"

text \<open>\<^verbatim>\<open>[parsed_items[arg] for arg in args]\<close>.\<close>

fun getitems :: "pydict \<Rightarrow> string list \<Rightarrow> error + pyval list" where
  "getitems parsed_items [] = Inr []"
| "getitems parsed_items (arg # rest) =
     (case getitem parsed_items arg of
        Inl e \<Rightarrow> Inl e
      | Inr v \<Rightarrow> (case getitems parsed_items rest of Inl e \<Rightarrow> Inl e | Inr vs \<Rightarrow> Inr (v # vs)))"

text \<open>\<open>process_one_step\<close> (lines 172-183).\<close>

definition process_one_step ::
  "nlp_field \<Rightarrow> string \<Rightarrow> pydict \<Rightarrow> (pyval list \<Rightarrow> error + pyval) \<Rightarrow> argspec option \<Rightarrow>
   string option \<Rightarrow> error + pydict" where
  "process_one_step self value_name parsed_items func' args' readable_value_name' =
     (case (case args' of
              None \<Rightarrow> Inr []
            | Some (ArgList names) \<Rightarrow> getitems parsed_items names
            | Some (ArgName n) \<Rightarrow> getitems parsed_items [n]) of
        Inl e \<Rightarrow> Inl e
      | Inr values \<Rightarrow>
          (case func' values of
             Inl e \<Rightarrow> Inl e
           | Inr v \<Rightarrow>
               if v = VNone then
                 (let value_name = (case readable_value_name' of None \<Rightarrow> value_name | Some r \<Rightarrow> r)
                  in case on_fail self value_name (Some parsed_items) of
                       Inl e \<Rightarrow> Inl e
                     | Inr txt \<Rightarrow> Inr (merge parsed_items [(''answer'', VStr txt)]))
               else Inr (setitem parsed_items value_name v)))"

text \<open>
  The loop of \<open>process_prompt\<close> (lines 187-193) either returns from the method
  with the discarded items, or ends with the items of the last step.
\<close>

datatype loop_exit = Return pydict | Done pydict

fun steps_loop :: "nlp_field \<Rightarrow> (string \<times> step_data) list \<Rightarrow> pydict \<Rightarrow> error + loop_exit" where
  "steps_loop self [] parsed_items = Inr (Done parsed_items)"
| "steps_loop self ((step_name, step) # rest) parsed_items =
     (let func' = func step;
          args' = (case args step of Some a \<Rightarrow> a | None \<Rightarrow> ArgList []);
          readable_value_name' = readable_value_name step
      in case process_one_step self step_name parsed_items func' (Some args') readable_value_name' of
           Inl e \<Rightarrow> Inl e
         | Inr parsed_items' \<Rightarrow>
             if \<not> contains parsed_items' step_name then Inr (Return (discard_items parsed_items'))
             else steps_loop self rest parsed_items')"

text \<open>\<open>process_prompt\<close> (lines 185-198).\<close>

definition process_prompt :: "nlp_field \<Rightarrow> string \<Rightarrow> error + pydict" where
  "process_prompt self prompt =
     (let parsed_items = [(''success'', VBool False), (''prompt'', VStr prompt)]
      in case steps_loop self (nlp_recipe self) parsed_items of
           Inl e \<Rightarrow> Inl e
         | Inr (Return result) \<Rightarrow> Inr result
         | Inr (Done parsed_items) \<Rightarrow>
             (let parsed_items = setitem parsed_items ''success'' (VBool True)
              in case parse_amount parsed_items of
                   Inl e \<Rightarrow> Inl e
                 | Inr parsed_items \<Rightarrow>
                     (let parsed_items = discard_items parsed_items
                      in case on_success self parsed_items of
                           Inl e \<Rightarrow> Inl e
                         | Inr txt \<Rightarrow> Inr (merge parsed_items [(''answer'', VStr txt)]))))"

section \<open>NLPAgent\<close>

text \<open>
  The fields of the agent (\<^verbatim>\<open>self.fields\<close>, here \<open>agent_fields\<close>) are objects of two classes. \<^verbatim>\<open>NLPField\<close> has no method
  \<^verbatim>\<open>process_prompt\<close>: the call raises \<^verbatim>\<open>AttributeError\<close> on such an object.
\<close>

datatype field = NLPField nlp_field | NLPStructuralField nlp_field

definition field_self :: "field \<Rightarrow> nlp_field" where
  "field_self f = (case f of NLPField self \<Rightarrow> self | NLPStructuralField self \<Rightarrow> self)"

definition field_process_prompt :: "field \<Rightarrow> string \<Rightarrow> error + pydict" where
  "field_process_prompt f prompt =
     (case f of
        NLPStructuralField self \<Rightarrow> process_prompt self prompt
      | NLPField self \<Rightarrow> Inl AttributeError)"

record nlp_agent = nlp_models_helper +
  agent_fields :: "field list"

text \<open>
  The construction of a field by keyword (\<^verbatim>\<open>NLPField(name=..., other_names=...)\<close>):
  the threshold takes its default \<open>0.6\<close>, the models are the one instance of
  \<^verbatim>\<open>NLPModels\<close>, and \<^verbatim>\<open>other_names\<close> is the empty list when it is not
  given. A score is a double, and no double lies between the double nearest to \<open>0.6\<close>
  and \<open>6/10\<close>, so comparing with \<open>6/10\<close> is comparing with the default.
\<close>

definition new_field :: "nlp_models \<Rightarrow> string \<Rightarrow> string list option \<Rightarrow> nlp_field" where
  "new_field models name' other_names' =
     \<lparr>zero_shot_threshold = 6/10, nlp_models = models, name = name',
      other_names = (case other_names' of None \<Rightarrow> [] | Some names \<Rightarrow> names)\<rparr>"

text \<open>\<open>setup_fields\<close> (lines 207-210).\<close>

definition setup_fields :: "nlp_models \<Rightarrow> field list" where
  "setup_fields models =
     (let structural = NLPStructuralField (new_field models ''structural'' None);
          mep = NLPField (new_field models ''MEP''
                  (Some [''mechanical'', ''electrical'', ''plumbing'', ''fire protection'']))
      in [structural, mep])"

text \<open>\<^verbatim>\<open>NLPAgent(zero_shot_threshold)\<close> with its \<^verbatim>\<open>__post_init__\<close> (lines 203-205).\<close>

definition NLPAgent :: "rat \<Rightarrow> nlp_models \<Rightarrow> nlp_agent" where
  "NLPAgent threshold models =
     \<lparr>zero_shot_threshold = threshold, nlp_models = models, agent_fields = setup_fields models\<rparr>"

text \<open>The loop over \<^verbatim>\<open>self.fields\<close> (lines 216-219); \<open>None\<close> when it ends.\<close>

fun fields_loop :: "field list \<Rightarrow> string \<Rightarrow> error + pydict option" where
  "fields_loop [] prompt = Inr None"
| "fields_loop (f # rest) prompt =
     (case found_inside (field_self f) prompt of
        Inl e \<Rightarrow> Inl e
      | Inr found \<Rightarrow>
          if found then
            (case field_process_prompt f prompt of Inl e \<Rightarrow> Inl e | Inr result \<Rightarrow> Inr (Some result))
          else fields_loop rest prompt)"

text \<open>\<open>process_prompt\<close> of \<^verbatim>\<open>NLPAgent\<close> (lines 212-219).\<close>

definition agent_process_prompt :: "nlp_agent \<Rightarrow> string \<Rightarrow> error + pydict option" where
  "agent_process_prompt self prompt =
     (case zero_shot self prompt ''request'' of
        Inl e \<Rightarrow> Inl e
      | Inr is_request \<Rightarrow>
          if \<not> is_request then
            (let answer = ''Please, a request must be placed.''
             in Inr (Some [(''success'', VBool False), (''answer'', VStr answer)]))
          else fields_loop (agent_fields self) prompt)"

section \<open>Observing the loop\<close>

text \<open>
  The values of \<^verbatim>\<open>parsed_items\<close> that the loop of \<open>process_prompt\<close> holds after
  each step that it goes on from, in order: the loop of \<open>steps_loop\<close> with the items
  recorded where it continues.
\<close>

fun slot_history :: "nlp_field \<Rightarrow> (string \<times> step_data) list \<Rightarrow> pydict \<Rightarrow> pydict list" where
  "slot_history self [] parsed_items = []"
| "slot_history self ((step_name, step) # rest) parsed_items =
     (let func' = func step;
          args' = (case args step of Some a \<Rightarrow> a | None \<Rightarrow> ArgList []);
          readable_value_name' = readable_value_name step
      in case process_one_step self step_name parsed_items func' (Some args') readable_value_name' of
           Inl e \<Rightarrow> []
         | Inr parsed_items' \<Rightarrow>
             if \<not> contains parsed_items' step_name then []
             else parsed_items' # slot_history self rest parsed_items')"

section \<open>Fixed capability outputs\<close>

text \<open>
  Stand-ins for the two pipelines. The classifier gives the score \<open>0.9\<close> to the
  labels of a given list and \<open>0.1\<close> to the others, and returns the rows by
  decreasing score as the pipeline does; the question answerer looks the question up
  in a table and answers the empty string when the question is not there.
\<close>

definition fixed_classifier :: "string list \<Rightarrow> string \<Rightarrow> string list \<Rightarrow> (string \<times> rat) list" where
  "fixed_classifier relevant text labels =
     map (\<lambda>l. (l, 9/10)) (filter (\<lambda>l. l \<in> set relevant) labels) @
     map (\<lambda>l. (l, 1/10)) (filter (\<lambda>l. l \<notin> set relevant) labels)"

definition fixed_answerer :: "(string \<times> string) list \<Rightarrow> string \<Rightarrow> string \<Rightarrow> string" where
  "fixed_answerer answers question context_text =
     (case map_of answers question of None \<Rightarrow> '''' | Some a \<Rightarrow> a)"

definition fixed_models :: "string list \<Rightarrow> (string \<times> string) list \<Rightarrow> nlp_models" where
  "fixed_models relevant answers =
     \<lparr>models_zero_shot = fixed_classifier relevant,
      models_question_answerer = fixed_answerer answers\<rparr>"

definition lower_prompt :: string where
  "lower_prompt = ''Please, lower by 0.2 m the height of beam B125''"

text \<open>The outputs of the end-to-end scenario.\<close>

definition lower_models :: nlp_models where
  "lower_models =
     fixed_models [''request'', ''structural'', ''beam'', ''down'']
       [(''Which is the name of the beam?'', ''B125''),
        (''What should we do with the beam B125?'', ''lower by 0.2 m the height''),
        (''To where?'', ''down''),
        (''By how much?'', ''0.2 m'')]"

text \<open>The same outputs, with no answer to the question about the name.\<close>

definition unnamed_models :: nlp_models where
  "unnamed_models =
     fixed_models [''request'', ''structural'', ''beam'', ''down'']
       [(''What should we do with the beam B125?'', ''lower by 0.2 m the height''),
        (''To where?'', ''down''),
        (''By how much?'', ''0.2 m'')]"

text \<open>The same outputs, with blanks as the answer to the question about the name.\<close>

definition blank_name_models :: nlp_models where
  "blank_name_models =
     fixed_models [''request'', ''structural'', ''beam'', ''down'']
       [(''Which is the name of the beam?'', ''   '')]"

text \<open>A classifier that finds a request, and no label of the element vocabulary.\<close>

definition no_element_models :: nlp_models where
  "no_element_models = fixed_models [''request'', ''structural''] []"

text \<open>A classifier that finds a request about electrical work, not a structural one.\<close>

definition electrical_models :: nlp_models where
  "electrical_models = fixed_models [''request'', ''electrical''] []"

section \<open>Growth of the slots\<close>

text \<open>
  \<open>grows a b\<close>: the items \<open>b\<close> have every key of \<open>a\<close> and are at least as many.
\<close>

definition grows :: "pydict \<Rightarrow> pydict \<Rightarrow> bool" where
  "grows a b = (length a \<le> length b \<and> set (keys a) \<subseteq> set (keys b))"

text \<open>The value of \<^verbatim>\<open>parsed_items\<close> when the loop of \<open>process_prompt\<close> starts.\<close>

definition initial_items :: "string \<Rightarrow> pydict" where
  "initial_items prompt = [(''success'', VBool False), (''prompt'', VStr prompt)]"

section \<open>Amount parsing\<close>

text \<open>
  C4: \<open>amount_breakdown\<close> gives \<open>(0.2, "m")\<close> for \<open>"0.2m"\<close>, \<open>(1.0, "m")\<close> for
  \<open>"1 m"\<close>, \<open>(-3.5, "ft")\<close> for \<open>"-3.5ft"\<close>, \<open>(5.0, "m")\<close> for \<open>"5"\<close> by the
  default unit, and no value for \<open>"one meter"\<close>, which has a unit-like word and no
  digit. Each float is given with the decimal it stands for.
\<close>

theorem amount_breakdown_examples:
  "amount_breakdown ''0.2m'' = VTuple (PyFloat False 2 1) ''m'' \<and>
   float_value (PyFloat False 2 1) = 2 / 10 \<and>
   amount_breakdown ''1 m'' = VTuple (PyFloat False 1 0) ''m'' \<and>
   float_value (PyFloat False 1 0) = 1 \<and>
   amount_breakdown ''-3.5ft'' = VTuple (PyFloat True 35 1) ''ft'' \<and>
   float_value (PyFloat True 35 1) = - (35 / 10) \<and>
   amount_breakdown ''5'' = VTuple (PyFloat False 5 0) ''m'' \<and>
   float_value (PyFloat False 5 0) = 5 \<and>
   amount_breakdown ''one meter'' = VNone"
proof -
  have a: "amount_breakdown ''0.2m'' = VTuple (PyFloat False 2 1) ''m''" by code_simp
  have b: "amount_breakdown ''1 m'' = VTuple (PyFloat False 1 0) ''m''" by code_simp
  have c: "amount_breakdown ''-3.5ft'' = VTuple (PyFloat True 35 1) ''ft''" by code_simp
  have d: "amount_breakdown ''5'' = VTuple (PyFloat False 5 0) ''m''" by code_simp
  have e: "amount_breakdown ''one meter'' = VNone" by code_simp
  show ?thesis using a b c d e by (simp add: float_value_def)
qed

section \<open>Dictionaries\<close>

lemmas dict_simps = getitem_def contains_def keys_def merge_def discard_items_def
  parsed_items_to_discard_def

lemma keys_setitem: "set (keys (setitem d k v)) = insert k (set (keys d))"
proof (induction d k v rule: setitem.induct)
  case (1 k v)
  then show ?case by (simp add: keys_def)
next
  case (2 k' v' d k v)
  then show ?case by (cases "k' = k") (auto simp: keys_def)
qed

lemma length_setitem: "length d \<le> length (setitem d k v)"
  by (induction d) auto

lemma distinct_setitem: "distinct (keys d) \<Longrightarrow> distinct (keys (setitem d k v))"
proof (induction d)
  case Nil
  then show ?case by (simp add: keys_def)
next
  case (Cons p d)
  obtain k' v' where p: "p = (k', v')" by (cases p)
  have "set (map fst (setitem d k v)) = insert k (set (map fst d))"
    using keys_setitem [of d k v] by (simp add: keys_def)
  with Cons p show ?case by (auto simp: keys_def)
qed

lemma merge_single: "merge d [(k, v)] = setitem d k v"
  by (simp add: merge_def)




section \<open>The end-to-end scenario\<close>

text \<open>
  C1: for the prompt "Please, lower by 0.2 m the height of beam B125", when the steps
  yield the element \<open>beam\<close>, the name \<open>B125\<close>, the action "lower by 0.2 m the height",
  the overall direction \<open>down\<close>, the direction \<open>down\<close> and the amount "0.2 m",
  \<open>process_prompt\<close> of the structural field returns exactly the items \<open>success\<close>
  true, \<open>element\<close>, \<open>element_name\<close>, \<open>direction\<close>, \<open>number\<close> 0.2, \<open>unit\<close> m and
  the answer "Hey! Perfect, I understood that a beam named B125 is requested to be moved
  down by 0.2 m. Doing my job now!".
\<close>

theorem lower_beam_end_to_end:
  assumes "which_element self lower_prompt = Inr (VStr ''beam'')"
    and "element_name self lower_prompt ''beam'' = Inr (VStr ''B125'')"
    and "action self lower_prompt ''beam'' ''B125'' = Inr (VStr ''lower by 0.2 m the height'')"
    and "overall_direction self lower_prompt = Inr (VStr ''down'')"
    and "direction self ''down'' = Inr (VStr ''down'')"
    and "amount self ''lower by 0.2 m the height'' = Inr (VStr ''0.2 m'')"
  shows "process_prompt self lower_prompt =
     Inr [(''success'', VBool True), (''element'', VStr ''beam''),
          (''element_name'', VStr ''B125''), (''direction'', VStr ''down''),
          (''number'', VFloat (PyFloat False 2 1)), (''unit'', VStr ''m''),
          (''answer'', VStr ''Hey! Perfect, I understood that a beam named B125 is requested to be moved down by 0.2 m. Doing my job now!'')] \<and>
     float_value (PyFloat False 2 1) = 2 / 10"
proof -
  have ab: "amount_breakdown ''0.2 m'' = VTuple (PyFloat False 2 1) ''m''" by code_simp
  have fr: "float_repr (PyFloat False 2 1) = ''0.2''" by code_simp
  show ?thesis
    using assms
    by (simp add: process_prompt_def nlp_recipe_def process_one_step_def dict_simps ab fr
        parse_amount_def on_success_def summary_def float_value_def del: One_nat_def)
qed

text \<open>The scenario with the fixed outputs \<open>lower_models\<close>.\<close>

theorem lower_beam_end_to_end_witness:
  "process_prompt (new_field lower_models ''structural'' None) lower_prompt =
     Inr [(''success'', VBool True), (''element'', VStr ''beam''),
          (''element_name'', VStr ''B125''), (''direction'', VStr ''down''),
          (''number'', VFloat (PyFloat False 2 1)), (''unit'', VStr ''m''),
          (''answer'', VStr ''Hey! Perfect, I understood that a beam named B125 is requested to be moved down by 0.2 m. Doing my job now!'')]"
proof -
  let ?f = "new_field lower_models ''structural'' None"
  have 1: "which_element ?f lower_prompt = Inr (VStr ''beam'')" by code_simp
  have 2: "element_name ?f lower_prompt ''beam'' = Inr (VStr ''B125'')" by code_simp
  have 3: "action ?f lower_prompt ''beam'' ''B125'' = Inr (VStr ''lower by 0.2 m the height'')"
    by code_simp
  have 4: "overall_direction ?f lower_prompt = Inr (VStr ''down'')" by code_simp
  have 5: "direction ?f ''down'' = Inr (VStr ''down'')" by code_simp
  have 6: "amount ?f ''lower by 0.2 m the height'' = Inr (VStr ''0.2 m'')" by code_simp
  show ?thesis using lower_beam_end_to_end [OF 1 2 3 4 5 6] by simp
qed

section \<open>The early failure\<close>

text \<open>
  C2 as stated expects the answer to start with "Sorry, ". With no answer to the
  question about the name, the element is already among the items, and the answer is not
  the one the claim gives.
\<close>

theorem missing_name_counterexample:
  "element_name (new_field unnamed_models ''structural'' None) lower_prompt ''beam'' = Inr VNone \<and>
   (case process_prompt (new_field unnamed_models ''structural'' None) lower_prompt of
      Inl e \<Rightarrow> Inl e
    | Inr result \<Rightarrow> getitem result ''answer'') \<noteq>
   Inr (VStr (''Sorry, I could not understand which element_name you are talking about. '' @
              ''Would you mind to rephrase it in a clear way for me and try again? Thanks in advance!''))"
  by code_simp

text \<open>
  C2, amended: for the same prompt, when the element step yields \<open>beam\<close> and the
  question answerer returns the empty string for the name, \<open>process_prompt\<close> returns
  \<open>success\<close> false, the element, and the answer "Hey! I understood a beam. However, I
  could not understand which element_name you are talking about. " followed by the request
  to rephrase; none of the keys \<open>element_name\<close>, \<open>direction\<close>, \<open>number\<close>, \<open>unit\<close>
  is in the result.
\<close>

theorem missing_name_failure:
  assumes "which_element self lower_prompt = Inr (VStr ''beam'')"
    and "question_answerer self ''Which is the name of the beam?'' lower_prompt = ''''"
  shows "process_prompt self lower_prompt =
     Inr [(''success'', VBool False), (''element'', VStr ''beam''),
          (''answer'', VStr (''Hey! I understood a beam. However, '' @
             ''I could not understand which element_name you are talking about. '' @
             ''Would you mind to rephrase it in a clear way for me and try again? Thanks in advance!''))] \<and>
     set [''element_name'', ''direction'', ''number'', ''unit''] \<inter>
       set (keys [(''success'', VBool False), (''element'', VStr ''beam''),
          (''answer'', VStr (''Hey! I understood a beam. However, '' @
             ''I could not understand which element_name you are talking about. '' @
             ''Would you mind to rephrase it in a clear way for me and try again? Thanks in advance!''))]) = {}"
  using assms
  by (simp add: process_prompt_def nlp_recipe_def process_one_step_def dict_simps
      element_name_def on_fail_def summary_def)

text \<open>The early failure with the fixed outputs \<open>unnamed_models\<close>.\<close>

theorem missing_name_failure_witness:
  "process_prompt (new_field unnamed_models ''structural'' None) lower_prompt =
     Inr [(''success'', VBool False), (''element'', VStr ''beam''),
          (''answer'', VStr (''Hey! I understood a beam. However, '' @
             ''I could not understand which element_name you are talking about. '' @
             ''Would you mind to rephrase it in a clear way for me and try again? Thanks in advance!''))]"
proof -
  let ?f = "new_field unnamed_models ''structural'' None"
  have 1: "which_element ?f lower_prompt = Inr (VStr ''beam'')" by code_simp
  have 2: "question_answerer ?f ''Which is the name of the beam?'' lower_prompt = ''''" by code_simp
  show ?thesis using missing_name_failure [OF 1 2] by simp
qed

section \<open>The first failing step\<close>

lemma first_step_failure_general:
  assumes "which_element self prompt = Inr VNone"
  shows "process_prompt self prompt =
     Inr [(''success'', VBool False),
          (''answer'', VStr (''Hey! I understood . However, '' @
             ''I could not understand which element you are talking about. '' @
             ''Would you mind to rephrase it in a clear way for me and try again? Thanks in advance!''))]"
  using assms
  by (simp add: process_prompt_def nlp_recipe_def process_one_step_def dict_simps
      on_fail_def summary_def)

text \<open>
  C5: when the first step fails and no slot has been extracted, the claim expects the
  plain message without a narrative before it. \<open>process_one_step\<close> always hands the
  items to \<open>on_fail\<close>, so the branch for \<open>None\<close> is never taken: with a classifier
  that finds no element, the answer starts with "Hey! I understood . However, ".
\<close>

theorem first_step_failure_message:
  "which_element (new_field no_element_models ''structural'' None) lower_prompt = Inr VNone \<and>
   process_prompt (new_field no_element_models ''structural'' None) lower_prompt =
     Inr [(''success'', VBool False),
          (''answer'', VStr (''Hey! I understood . However, '' @
             ''I could not understand which element you are talking about. '' @
             ''Would you mind to rephrase it in a clear way for me and try again? Thanks in advance!''))]"
  by code_simp

section \<open>The summary\<close>




section \<open>The loop over the steps\<close>

lemma process_one_step_cases:
  assumes "process_one_step self n d f a r = Inr d'"
  shows "(\<exists>v. d' = setitem d n v) \<or> (\<exists>txt. d' = setitem d ''answer'' (VStr txt))"
  using assms
  by (auto simp: process_one_step_def merge_single Let_def split: sum.splits if_splits)

lemma process_one_step_fail:
  assumes "process_one_step self n d f a r = Inr d'" and "\<not> contains d' n"
  shows "\<exists>txt. d' = setitem d ''answer'' (VStr txt)"
  using process_one_step_cases [OF assms(1)] assms(2)
  by (auto simp: contains_def keys_setitem)

lemma process_one_step_ok:
  assumes "process_one_step self n d f a r = Inr d'" and "contains d' n"
    and "n \<notin> set (keys d)" and "n \<noteq> ''answer''"
  shows "\<exists>v. d' = setitem d n v"
  using process_one_step_cases [OF assms(1)] assms(2-4)
  by (auto simp: contains_def keys_setitem)

lemma process_one_step_grows:
  assumes "process_one_step self n d f a r = Inr d'"
  shows "length d \<le> length d' \<and> set (keys d) \<subseteq> set (keys d') \<and>
         (distinct (keys d) \<longrightarrow> distinct (keys d'))"
  using process_one_step_cases [OF assms]
  by (auto simp: keys_setitem length_setitem distinct_setitem)

lemma sorted_wrt_grows_Cons:
  "grows a b \<Longrightarrow> sorted_wrt grows (b # xs) \<Longrightarrow> sorted_wrt grows (a # b # xs)"
  by (auto simp: grows_def)

lemma slot_history_grows: "sorted_wrt grows (d # slot_history self steps d)"
proof (induction steps arbitrary: d)
  case Nil
  then show ?case by simp
next
  case (Cons s steps)
  obtain n st where s: "s = (n, st)" by (cases s)
  show ?case
  proof (cases "process_one_step self n d (func st)
       (Some (case args st of Some a \<Rightarrow> a | None \<Rightarrow> ArgList [])) (readable_value_name st)")
    case (Inl e)
    then show ?thesis by (simp add: s)
  next
    case (Inr d')
    show ?thesis
    proof (cases "contains d' n")
      case True
      have "grows d d'" using process_one_step_grows [OF Inr] by (simp add: grows_def)
      then have "sorted_wrt grows (d # d' # slot_history self steps d')"
        using Cons.IH [of d'] by (rule sorted_wrt_grows_Cons)
      then show ?thesis using Inr True by (simp add: s)
    next
      case False
      then show ?thesis using Inr by (simp add: s)
    qed
  qed
qed


lemma steps_loop_history:
  "(steps_loop self steps d = Inr (Done d') \<longrightarrow>
      d' = last (d # slot_history self steps d) \<and>
      length (slot_history self steps d) = length steps) \<and>
   (steps_loop self steps d = Inr (Return r) \<longrightarrow>
      (\<exists>txt. r = discard_items (setitem (last (d # slot_history self steps d)) ''answer'' (VStr txt))) \<and>
      length (slot_history self steps d) < length steps)"
proof (induction steps arbitrary: d)
  case Nil
  then show ?case by simp
next
  case (Cons s steps)
  obtain n st where s: "s = (n, st)" by (cases s)
  show ?case
  proof (cases "process_one_step self n d (func st)
       (Some (case args st of Some a \<Rightarrow> a | None \<Rightarrow> ArgList [])) (readable_value_name st)")
    case (Inl e)
    then show ?thesis by (simp add: s)
  next
    case (Inr d')
    show ?thesis
    proof (cases "contains d' n")
      case True
      have h: "slot_history self (s # steps) d = d' # slot_history self steps d'"
        using Inr True by (simp add: s)
      have l: "steps_loop self (s # steps) d = steps_loop self steps d'"
        using Inr True by (simp add: s)
      show ?thesis using Cons.IH [of d'] unfolding h l by auto
    next
      case False
      have h: "slot_history self (s # steps) d = []"
        using Inr False by (simp add: s)
      have l: "steps_loop self (s # steps) d = Inr (Return (discard_items d'))"
        using Inr False by (simp add: s)
      obtain msg where "d' = setitem d ''answer'' (VStr msg)"
        using process_one_step_fail [OF Inr False] by blast
      then show ?thesis unfolding h l by auto
    qed
  qed
qed

lemma process_prompt_result:
  assumes "process_prompt self prompt = Inr result"
  shows "(length (slot_history self (nlp_recipe self) (initial_items prompt)) < length (nlp_recipe self) \<and>
          (\<exists>txt. result = discard_items
             (setitem (last (initial_items prompt # slot_history self (nlp_recipe self) (initial_items prompt)))
                ''answer'' (VStr txt)))) \<or>
         (length (slot_history self (nlp_recipe self) (initial_items prompt)) = length (nlp_recipe self) \<and>
          (\<exists>items txt.
             parse_amount
               (setitem (last (initial_items prompt # slot_history self (nlp_recipe self) (initial_items prompt)))
                  ''success'' (VBool True)) = Inr items \<and>
             result = setitem (discard_items items) ''answer'' (VStr txt)))"
proof (cases "steps_loop self (nlp_recipe self) (initial_items prompt)")
  case (Inl e)
  then show ?thesis using assms by (simp add: process_prompt_def initial_items_def)
next
  case (Inr ex)
  show ?thesis
  proof (cases ex)
    case (Return r)
    have "result = r"
      using assms Inr Return by (simp add: process_prompt_def initial_items_def)
    then show ?thesis
      using steps_loop_history [of self "nlp_recipe self" "initial_items prompt" _ r] Inr Return
      by simp
  next
    case (Done d')
    have h: "d' = last (initial_items prompt # slot_history self (nlp_recipe self) (initial_items prompt))"
      "length (slot_history self (nlp_recipe self) (initial_items prompt)) = length (nlp_recipe self)"
      using steps_loop_history [of self "nlp_recipe self" "initial_items prompt" d'] Inr Done
      by simp_all
    have "\<exists>items txt. parse_amount (setitem d' ''success'' (VBool True)) = Inr items \<and>
            result = setitem (discard_items items) ''answer'' (VStr txt)"
      using assms Inr Done
      by (auto simp: process_prompt_def initial_items_def Let_def merge_single split: sum.splits)
    then show ?thesis using h by simp
  qed
qed



section \<open>The keys of the result\<close>




section \<open>Monotonic slot growth\<close>

lemma sorted_sizes:
  "sorted_wrt grows xs \<Longrightarrow> sorted (map length xs)"
  by (induction xs) (auto simp: grows_def)

text \<open>
  C9: for every prompt and all capability outputs, the items observed after each
  resolved step keep every key and never get fewer (the sizes are non-decreasing), and
  the result is one \<open>discard_items\<close> of the items the loop ended with: after the first
  failure, with the answer added before, or after the last step, with the amount parsed
  before and the answer added after.
\<close>

theorem slots_grow_until_discard:
  "sorted_wrt grows (initial_items prompt # slot_history self (nlp_recipe self) (initial_items prompt)) \<and>
   sorted (map length (initial_items prompt # slot_history self (nlp_recipe self) (initial_items prompt))) \<and>
   (process_prompt self prompt = Inr result \<longrightarrow>
      (length (slot_history self (nlp_recipe self) (initial_items prompt)) < length (nlp_recipe self) \<and>
       (\<exists>txt. result = discard_items
          (setitem (last (initial_items prompt # slot_history self (nlp_recipe self) (initial_items prompt)))
             ''answer'' (VStr txt)))) \<or>
      (length (slot_history self (nlp_recipe self) (initial_items prompt)) = length (nlp_recipe self) \<and>
       (\<exists>items txt.
          parse_amount
            (setitem (last (initial_items prompt # slot_history self (nlp_recipe self) (initial_items prompt)))
               ''success'' (VBool True)) = Inr items \<and>
          result = setitem (discard_items items) ''answer'' (VStr txt))))"
proof -
  have g: "sorted_wrt grows
      (initial_items prompt # slot_history self (nlp_recipe self) (initial_items prompt))"
    by (rule slot_history_grows)
  show ?thesis
    using g sorted_sizes [OF g] process_prompt_result [of self prompt result] by blast
qed

text \<open>The sizes in the end-to-end scenario, from 2 items to 9.\<close>

theorem slots_grow_until_discard_witness:
  "map length (initial_items lower_prompt #
     slot_history (new_field lower_models ''structural'' None)
       (nlp_recipe (new_field lower_models ''structural'' None)) (initial_items lower_prompt)) =
     [2, 3, 4, 5, 6, 7, 8, 9] \<and>
   sorted [2, 3, 4, 5, 6, 7, 8, 9 :: nat] \<and>
   (\<exists>items txt.
      parse_amount
        (setitem (last (initial_items lower_prompt #
           slot_history (new_field lower_models ''structural'' None)
             (nlp_recipe (new_field lower_models ''structural'' None)) (initial_items lower_prompt)))
           ''success'' (VBool True)) = Inr items \<and>
      [(''success'', VBool True), (''element'', VStr ''beam''),
       (''element_name'', VStr ''B125''), (''direction'', VStr ''down''),
       (''number'', VFloat (PyFloat False 2 1)), (''unit'', VStr ''m''),
       (''answer'', VStr ''Hey! Perfect, I understood that a beam named B125 is requested to be moved down by 0.2 m. Doing my job now!'')] =
      setitem (discard_items items) ''answer'' (VStr txt))"
proof -
  let ?f = "new_field lower_models ''structural'' None"
  let ?r = "[(''success'', VBool True), (''element'', VStr ''beam''),
       (''element_name'', VStr ''B125''), (''direction'', VStr ''down''),
       (''number'', VFloat (PyFloat False 2 1)), (''unit'', VStr ''m''),
       (''answer'', VStr ''Hey! Perfect, I understood that a beam named B125 is requested to be moved down by 0.2 m. Doing my job now!'')]"
  have p: "process_prompt ?f lower_prompt = Inr ?r" by code_simp
  have l: "map length (initial_items lower_prompt #
     slot_history ?f (nlp_recipe ?f) (initial_items lower_prompt)) = [2, 3, 4, 5, 6, 7, 8, 9]"
    by code_simp
  have n: "length (nlp_recipe ?f) = 7" by (simp add: nlp_recipe_def)
  have m: "length (slot_history ?f (nlp_recipe ?f) (initial_items lower_prompt)) = 7"
    using arg_cong [OF l, of length] by simp
  have s: "sorted [2, 3, 4, 5, 6, 7, 8, 9 :: nat]" by simp
  from slots_grow_until_discard [of lower_prompt ?f ?r] p
  have "(length (slot_history ?f (nlp_recipe ?f) (initial_items lower_prompt)) < length (nlp_recipe ?f) \<and>
       (\<exists>txt. ?r = discard_items
          (setitem (last (initial_items lower_prompt # slot_history ?f (nlp_recipe ?f) (initial_items lower_prompt)))
             ''answer'' (VStr txt)))) \<or>
      (length (slot_history ?f (nlp_recipe ?f) (initial_items lower_prompt)) = length (nlp_recipe ?f) \<and>
       (\<exists>items txt.
          parse_amount
            (setitem (last (initial_items lower_prompt # slot_history ?f (nlp_recipe ?f) (initial_items lower_prompt)))
               ''success'' (VBool True)) = Inr items \<and>
          ?r = setitem (discard_items items) ''answer'' (VStr txt)))"
    by blast
  then have "\<exists>items txt.
          parse_amount
            (setitem (last (initial_items lower_prompt # slot_history ?f (nlp_recipe ?f) (initial_items lower_prompt)))
               ''success'' (VBool True)) = Inr items \<and>
          ?r = setitem (discard_items items) ''answer'' (VStr txt)"
    unfolding m n by simp
  then show ?thesis using l s by blast
qed

section \<open>The element step\<close>

lemma foldl_max_Max: "foldl max (x :: rat) xs = Max (set (x # xs))"
proof (induction xs arbitrary: x)
  case Nil
  then show ?case by simp
next
  case (Cons y ys)
  have "foldl max x (y # ys) = Max (set (max x y # ys))"
    using Cons.IH [of "max x y"] by simp
  also have "\<dots> = Max (set (x # y # ys))"
    by (cases ys) (simp_all add: max.assoc)
  finally show ?case .
qed

lemma idxmax_first_maximum:
  assumes "i < length scores"
    and "\<forall>j<length scores. scores ! j \<le> scores ! i"
    and "\<forall>j<i. scores ! j < scores ! i"
  shows "idxmax scores = i"
proof -
  have ne: "scores \<noteq> []" using assms(1) by auto
  then have hd_tl: "hd scores # tl scores = scores" by simp
  have m: "foldl max (hd scores) (tl scores) = Max (set scores)"
    using foldl_max_Max [of "hd scores" "tl scores"] by (simp add: hd_tl)
  have "Max (set scores) = scores ! i"
  proof (rule Max_eqI)
    show "finite (set scores)" by simp
    show "\<And>y. y \<in> set scores \<Longrightarrow> y \<le> scores ! i"
      using assms(2) by (auto simp: in_set_conv_nth)
    show "scores ! i \<in> set scores" using assms(1) by simp
  qed
  with m have m': "foldl max (hd scores) (tl scores) = scores ! i" by simp
  have pre: "\<forall>j<i. scores ! j \<noteq> scores ! i" using assms(3) by auto
  have "takeWhile (\<lambda>score. score \<noteq> scores ! i) scores = take i scores"
    using assms(1) pre by (intro takeWhile_eq_take_P_nth) auto
  then show ?thesis using assms(1) by (simp add: idxmax_def m')
qed

text \<open>
  C8: for every prompt, the element step takes the label of the first maximal score
  among the rows the classifier returns for the vocabulary wall, slab, beam, column,
  and yields it only if the classifier, asked about this label alone, scores it above
  the threshold; otherwise the step yields no value.
\<close>

theorem which_element_argmax_then_relevance:
  assumes "models_zero_shot (nlp_models self) prompt [''wall'', ''slab'', ''beam'', ''column''] = df"
    and "i < length df"
    and "\<forall>j<length df. snd (df ! j) \<le> snd (df ! i)"
    and "\<forall>j<i. snd (df ! j) < snd (df ! i)"
    and "models_zero_shot (nlp_models self) prompt [fst (df ! i)] = (label, score) # rest"
  shows "which_element self prompt =
           Inr (if zero_shot_threshold self < score then VStr (fst (df ! i)) else VNone)"
proof -
  have ne: "df \<noteq> []" using assms(2) by auto
  have "idxmax (map snd df) = i"
    using assms(2-4) by (intro idxmax_first_maximum) auto
  then have "zero_shot_multiple self prompt elements = Inr (fst (df ! i))"
    using assms(1) ne by (simp add: zero_shot_multiple_def elements_def)
  moreover have "zero_shot self prompt (fst (df ! i)) = Inr (zero_shot_threshold self < score)"
    using assms(5) by (simp add: zero_shot_def)
  ultimately show ?thesis by (simp add: which_element_def)
qed

text \<open>A prompt about a beam, and a prompt in which no element is found.\<close>

theorem which_element_argmax_then_relevance_witness:
  "which_element (new_field lower_models ''structural'' None) lower_prompt = Inr (VStr ''beam'') \<and>
   which_element (new_field no_element_models ''structural'' None) lower_prompt = Inr VNone"
proof -
  let ?f = "new_field lower_models ''structural'' None"
  let ?g = "new_field no_element_models ''structural'' None"
  let ?df = "[(''beam'', 9/10), (''wall'', 1/10), (''slab'', 1/10), (''column'', 1/10)] :: (string \<times> rat) list"
  let ?dg = "[(''wall'', 1/10), (''slab'', 1/10), (''beam'', 1/10), (''column'', 1/10)] :: (string \<times> rat) list"
  have f1: "models_zero_shot (nlp_models ?f) lower_prompt [''wall'', ''slab'', ''beam'', ''column''] = ?df"
    by (simp add: new_field_def lower_models_def fixed_models_def fixed_classifier_def)
  have f2: "(0::nat) < length ?df" by simp
  have f3: "\<forall>j<length ?df. snd (?df ! j) \<le> snd (?df ! 0)"
    by (simp add: All_less_Suc numeral_eq_Suc)
  have f4: "\<forall>j<(0::nat). snd (?df ! j) < snd (?df ! 0)" by simp
  have f5: "models_zero_shot (nlp_models ?f) lower_prompt [fst (?df ! 0)] = (''beam'', 9/10) # []"
    by (simp add: new_field_def lower_models_def fixed_models_def fixed_classifier_def)
  have g1: "models_zero_shot (nlp_models ?g) lower_prompt [''wall'', ''slab'', ''beam'', ''column''] = ?dg"
    by (simp add: new_field_def no_element_models_def fixed_models_def fixed_classifier_def)
  have g2: "(0::nat) < length ?dg" by simp
  have g3: "\<forall>j<length ?dg. snd (?dg ! j) \<le> snd (?dg ! 0)"
    by (simp add: All_less_Suc numeral_eq_Suc)
  have g4: "\<forall>j<(0::nat). snd (?dg ! j) < snd (?dg ! 0)" by simp
  have g5: "models_zero_shot (nlp_models ?g) lower_prompt [fst (?dg ! 0)] = (''wall'', 1/10) # []"
    by (simp add: new_field_def no_element_models_def fixed_models_def fixed_classifier_def)
  have a: "which_element ?f lower_prompt = Inr (VStr ''beam'')"
    using which_element_argmax_then_relevance [OF f1 f2 f3 f4 f5] by (simp add: new_field_def)
  have b: "which_element ?g lower_prompt = Inr VNone"
    using which_element_argmax_then_relevance [OF g1 g2 g3 g4 g5] by (simp add: new_field_def)
  show ?thesis using a b by simp
qed

section \<open>The name of the element\<close>

lemma split_words_spaces: "list_all isspace s \<Longrightarrow> split_words [] s = []"
  by (induction s) auto

lemma split_words_nonempty: "w \<noteq> [] \<Longrightarrow> split_words w s \<noteq> []"
  by (induction s arbitrary: w) auto

lemma split_empty_iff: "(split s = []) = list_all isspace s"
proof
  show "list_all isspace s \<Longrightarrow> split s = []"
    by (simp add: split_def split_words_spaces)
  show "split s = [] \<Longrightarrow> list_all isspace s"
    unfolding split_def
  proof (induction s)
    case Nil
    then show ?case by simp
  next
    case (Cons c s)
    show ?case
    proof (cases "isspace c")
      case True
      then show ?thesis using Cons by simp
    next
      case False
      then have "split_words [] (c # s) = split_words [c] s" by simp
      then show ?thesis using Cons.prems split_words_nonempty [of "[c]" s] by simp
    qed
  qed
qed

text \<open>
  C10: when the answer to the question about the name is not empty and consists of
  whitespace only, splitting it gives no word and \<open>element_name\<close> raises
  \<^verbatim>\<open>IndexError\<close>; the step yields no value for the empty answer and for no other.
\<close>

theorem element_name_blank_answer:
  assumes "question_answerer self (''Which is the name of the '' @ element @ ''?'') prompt = answer"
  shows "(answer = '''' \<longrightarrow> element_name self prompt element = Inr VNone) \<and>
         (answer \<noteq> '''' \<and> list_all isspace answer \<longrightarrow>
            split answer = [] \<and> element_name self prompt element = Inl IndexError) \<and>
         (answer \<noteq> '''' \<longrightarrow> element_name self prompt element \<noteq> Inr VNone) \<and>
         (answer \<noteq> '''' \<and> \<not> list_all isspace answer \<longrightarrow>
            (\<exists>word. element_name self prompt element = Inr (VStr word)))"
  using assms split_empty_iff [of answer]
  by (auto simp: element_name_def split: list.splits)

text \<open>An answer of three blanks, and the empty answer.\<close>

theorem element_name_blank_answer_witness:
  "element_name (new_field blank_name_models ''structural'' None) lower_prompt ''beam'' = Inl IndexError \<and>
   element_name (new_field unnamed_models ''structural'' None) lower_prompt ''beam'' = Inr VNone \<and>
   element_name (new_field lower_models ''structural'' None) lower_prompt ''beam'' = Inr (VStr ''B125'')"
proof -
  let ?b = "new_field blank_name_models ''structural'' None"
  let ?u = "new_field unnamed_models ''structural'' None"
  let ?l = "new_field lower_models ''structural'' None"
  have b: "question_answerer ?b (''Which is the name of the '' @ ''beam'' @ ''?'') lower_prompt = ''   ''"
    by code_simp
  have u: "question_answerer ?u (''Which is the name of the '' @ ''beam'' @ ''?'') lower_prompt = ''''"
    by code_simp
  have l: "question_answerer ?l (''Which is the name of the '' @ ''beam'' @ ''?'') lower_prompt = ''B125''"
    by code_simp
  have s: "list_all isspace ''   ''" by code_simp
  have 1: "element_name ?b lower_prompt ''beam'' = Inl IndexError"
    using element_name_blank_answer [OF b] s by simp
  have 2: "element_name ?u lower_prompt ''beam'' = Inr VNone"
    using element_name_blank_answer [OF u] by simp
  have 3: "element_name ?l lower_prompt ''beam'' = Inr (VStr ''B125'')"
  proof -
    have "\<not> list_all isspace ''B125''" by code_simp
    then obtain word where w: "element_name ?l lower_prompt ''beam'' = Inr (VStr word)"
      using element_name_blank_answer [OF l] by auto
    have "element_name ?l lower_prompt ''beam'' = Inr (VStr ''B125'')" by code_simp
    then show ?thesis using w by simp
  qed
  show ?thesis using 1 2 3 by simp
qed

section \<open>The dispatcher\<close>

lemma agent_rejects_other_prompts:
  assumes "zero_shot self prompt ''request'' = Inr False"
  shows "agent_process_prompt self prompt =
           Inr (Some [(''success'', VBool False), (''answer'', VStr ''Please, a request must be placed.'')])"
  using assms by (simp add: agent_process_prompt_def)

lemma fields_loop_no_match:
  assumes "list_all (\<lambda>f. found_inside (field_self f) prompt = Inr False) fs"
  shows "fields_loop fs prompt = Inr None"
  using assms by (induction fs) auto

lemma fields_loop_first_match:
  assumes "list_all (\<lambda>f. found_inside (field_self f) prompt = Inr False) before"
    and "found_inside (field_self f) prompt = Inr True"
  shows "fields_loop (before @ f # rest) prompt =
           (case field_process_prompt f prompt of Inl e \<Rightarrow> Inl e | Inr result \<Rightarrow> Inr (Some result))"
  using assms by (induction before) auto

text \<open>
  C7: the dispatcher should run the first field whose \<open>found_inside\<close> is true and return
  its result. For a request that the classifier relates to "electrical" and not to
  "structural", the first such field is the MEP field, an \<^verbatim>\<open>NLPField\<close>, and the call
  of its \<^verbatim>\<open>process_prompt\<close> raises.
\<close>

theorem mep_field_raises:
  "zero_shot (NLPAgent (6/10) electrical_models) lower_prompt ''request'' = Inr True \<and>
   map (\<lambda>f. found_inside (field_self f) lower_prompt) (agent_fields (NLPAgent (6/10) electrical_models)) =
     [Inr False, Inr True] \<and>
   agent_process_prompt (NLPAgent (6/10) electrical_models) lower_prompt = Inl AttributeError"
  by code_simp

end
